theory Spec2Isabelle
  imports Main "HOL-Library.Sublist"
begin

section \<open>The LLaVA captioner app: data model\<close>

text \<open>
  The development follows \<^verbatim>\<open>src/app.py\<close> (class \<^verbatim>\<open>LlavaCaptioner\<close>) and the parameter
  declarations of \<^verbatim>\<open>src/metadata.py\<close>. Python strings are modelled as \<^typ>\<open>string\<close>, one
  \<^typ>\<open>char\<close> standing for one character of the Python string; Python integers as \<^typ>\<open>int\<close>.
  Every exception the code can raise is a value of \<open>error\<close>; a run returns the exception
  it raised, if any, together with the local state reached at that point.
\<close>

datatype error = IndexError | KeyError | AttributeError | ValueError | ModelError

text \<open>
  Annotation types the app creates in its output view, and identifiers. An identifier is
  either carried by an annotation of the input (\<open>Given\<close>, the \<^verbatim>\<open>long_id\<close> of a time frame)
  or assigned by the output view to an annotation it creates (\<open>Fresh\<close>: the annotation
  type and a running number per type, as the SDK's \<^verbatim>\<open>new_annotation\<close> counts them).
\<close>

datatype ann_type = TextDocument | Alignment | TimePoint

datatype ident = Given string | Fresh ann_type nat

text \<open>
  A \<^verbatim>\<open>TimeFrame\<close> annotation of the input: its \<^verbatim>\<open>long_id\<close>, the properties
  \<^verbatim>\<open>start\<close> and \<^verbatim>\<open>end\<close> (frame numbers), the property \<^verbatim>\<open>label\<close> (absent: \<open>None\<close>) and
  the property \<^verbatim>\<open>representatives\<close> (absent: \<open>None\<close>).
\<close>

record timeframe =
  tf_long_id :: string
  tf_start :: int
  tf_end :: int
  tf_label :: "string option"
  tf_representatives :: "string list option"

record video_document =
  doc_id :: string
  frame_count :: int

text \<open>
  A view of the input: \<^verbatim>\<open>metadata["app"]\<close>, the identifiers of the documents its
  annotations are anchored on (what \<^verbatim>\<open>get_views_for_document\<close> tests) and its
  \<^verbatim>\<open>TimeFrame\<close> annotations in document order (what \<^verbatim>\<open>get_annotations\<close> yields).
\<close>

record view =
  metadata_app :: string
  anchored_on :: "string list"
  view_timeframes :: "timeframe list"

text \<open>
  The input document. \<open>aligned_text\<close> stands for the SDK helper
  \<^verbatim>\<open>text_document_helper.slice_text(mmif, start, end, unit="frame")\<close>: the text aligned with
  the frames from \<open>start\<close> to \<open>end\<close>.
\<close>

record mmif =
  video_documents :: "video_document list"
  views :: "view list"
  aligned_text :: "int \<Rightarrow> int \<Rightarrow> string"

text \<open>
  The runtime parameters. \<^verbatim>\<open>metadata.py\<close> declares \<^verbatim>\<open>defaultPrompt\<close> and \<^verbatim>\<open>promptMap\<close>
  with default values, so both are always present; \<^verbatim>\<open>frameInterval\<close> and \<^verbatim>\<open>batchSize\<close>
  are read with \<^verbatim>\<open>parameters.get(name, fallback)\<close> and may be absent (\<open>None\<close>).
\<close>

record parameters =
  promptMap :: "string \<rightharpoonup> string"
  defaultPrompt :: string
  frameInterval :: "int option"
  batchSize :: "int option"

text \<open>The arguments of the command line parser of the \<^verbatim>\<open>__main__\<close> block.\<close>

record cli_args =
  cli_port :: string
  cli_production :: bool
  cli_frameInterval :: int
  cli_batchSize :: int

text \<open>An image is identified by the number of the video frame it shows.\<close>

datatype image = Frame int

text \<open>
  The annotations of the output view, in the order of their creation: a text document
  (identifier, text), an alignment (identifier, \<^verbatim>\<open>source\<close>, \<^verbatim>\<open>target\<close>) and a time
  point (identifier, \<^verbatim>\<open>timePoint\<close>).
\<close>

datatype out_annotation =
    NewTextDocument ident string
  | NewAlignment ident ident ident
  | NewTimePoint ident int

text \<open>
  The captioning model (processor, \<^verbatim>\<open>generate\<close>, \<^verbatim>\<open>batch_decode\<close>) is a black box taking
  the prompts and the images of one batch; \<open>None\<close> stands for an invocation that raises.
\<close>

type_synonym model = "string list \<Rightarrow> image list \<Rightarrow> string list option"

text \<open>
  The local state of \<^verbatim>\<open>_annotate\<close>. The variable \<^verbatim>\<open>images\<close> holds a reference: the
  list objects live in \<open>heap\<close>, so that two names of one list see each other's appends.
  \<open>calls\<close> logs the arguments of every model invocation.
\<close>

record locals =
  prompts :: "string list"
  images :: nat
  annotations :: "ident list"
  heap :: "nat \<Rightarrow> image list"
  next_ref :: nat
  new_view :: "out_annotation list"
  calls :: "(string list \<times> image list) list"

section \<open>Python primitives\<close>

text \<open>\<^verbatim>\<open>s[:n]\<close>: a negative bound counts from the end.\<close>

definition slice_to :: "'a list \<Rightarrow> int \<Rightarrow> 'a list" where
  "slice_to xs n =
     (if 0 \<le> n then take (nat n) xs else take (nat (int (length xs) + n)) xs)"

text \<open>\<^verbatim>\<open>str.replace(old, new)\<close>: every occurrence, left to right, without overlaps.\<close>

function py_replace :: "string \<Rightarrow> string \<Rightarrow> string \<Rightarrow> string" where
  "py_replace s old new =
     (if old = [] then new @ concat (map (\<lambda>c. c # new) s)
      else if s = [] then []
      else if prefix old s then new @ py_replace (drop (length old) s) old new
      else hd s # py_replace (tl s) old new)"
  by pat_completeness auto
termination
  by (relation "measure (\<lambda>(s, old, new). length s)") auto

declare py_replace.simps [simp del]

text \<open>\<^verbatim>\<open>str.strip()\<close>: the characters for which \<^verbatim>\<open>isspace\<close> holds.\<close>

definition isspace :: "char \<Rightarrow> bool" where
  "isspace c \<longleftrightarrow> c \<in> set [CHR 0x09, CHR 0x0A, CHR 0x0B, CHR 0x0C, CHR 0x0D,
     CHR 0x1C, CHR 0x1D, CHR 0x1E, CHR 0x1F, CHR 0x20, CHR 0x85, CHR 0xA0]"

definition strip :: "string \<Rightarrow> string" where
  "strip s = rev (dropWhile isspace (rev (dropWhile isspace s)))"

text \<open>\<^verbatim>\<open>list(range(start, stop, step))\<close>; a zero step raises \<^verbatim>\<open>ValueError\<close>.\<close>

definition py_range :: "int \<Rightarrow> int \<Rightarrow> int \<Rightarrow> error + int list" where
  "py_range start stop step =
     (if step = 0 then Inl ValueError
      else let n = (if 0 < step then (stop - start + step - 1) div step
                    else (start - stop - step - 1) div (- step))
           in Inr (map (\<lambda>k. start + int k * step) [0..<nat n]))"

section \<open>The collaborators of the SDK\<close>

text \<open>
  \<^verbatim>\<open>mmif.get_views_for_document(doc_id)\<close>: the views with an annotation anchored on the
  document.
\<close>

definition get_views_for_document :: "mmif \<Rightarrow> string \<Rightarrow> view list" where
  "get_views_for_document m d = filter (\<lambda>v. d \<in> set (anchored_on v)) (views m)"

text \<open>
  Modelled from the spec: \<^verbatim>\<open>vdh.extract_mid_frame\<close> belongs to the document access layer
  of the SDK (\<^verbatim>\<open>mmif.utils.video_document_helper\<close>), which is not part of the repository. It
  is "extract midpoint frame of span": the frame halfway between the span's start and end.
\<close>

definition extract_mid_frame :: "timeframe \<Rightarrow> image" where
  "extract_mid_frame tf = Frame ((tf_start tf + tf_end tf) div 2)"

text \<open>
  Modelled from the spec: \<^verbatim>\<open>vdh.extract_frames_as_images\<close>, of the same layer, is "extract
  frame at index" for each of the frame numbers; it returns the images as a new list.
\<close>

definition extract_frames_as_images :: "video_document \<Rightarrow> int list \<Rightarrow> image list" where
  "extract_frames_as_images video_doc frame_numbers = map Frame frame_numbers"

text \<open>Modelled from the spec: \<^verbatim>\<open>vdh.get_frame_count\<close>, of the same layer, is "frame count".\<close>

definition get_frame_count :: "video_document \<Rightarrow> int" where
  "get_frame_count video_doc = frame_count video_doc"

text \<open>
  The output view assigns to a new annotation the next number of its type
  (\<^verbatim>\<open>new_annotation\<close>, \<^verbatim>\<open>new_textdocument\<close>).
\<close>

fun at_type :: "out_annotation \<Rightarrow> ann_type" where
  "at_type (NewTextDocument _ _) = TextDocument"
| "at_type (NewAlignment _ _ _) = Alignment"
| "at_type (NewTimePoint _ _) = TimePoint"

definition fresh_id :: "ann_type \<Rightarrow> out_annotation list \<Rightarrow> ident" where
  "fresh_id t v = Fresh t (Suc (length (filter (\<lambda>a. at_type a = t) v)))"

section \<open>The app\<close>

subsection \<open>\<^verbatim>\<open>get_context\<close> and \<^verbatim>\<open>get_prompt\<close>\<close>

definition get_context :: "mmif \<Rightarrow> timeframe \<Rightarrow> int \<Rightarrow> string" where
  "get_context m tf max_characters =
     (let start_frame = tf_start tf;
          end_frame = tf_end tf;
          sliced_text = aligned_text m start_frame end_frame
      in slice_to sliced_text max_characters)"

text \<open>The default of the argument \<^verbatim>\<open>max_characters\<close>; \<^verbatim>\<open>_annotate\<close> never passes another.\<close>

definition max_characters_default :: int where
  "max_characters_default = 200"

definition get_prompt :: "string \<Rightarrow> (string \<rightharpoonup> string) \<Rightarrow> string \<Rightarrow> string option" where
  "get_prompt label prompt_map default_prompt =
     (let prompt = (case prompt_map label of Some p \<Rightarrow> p | None \<Rightarrow> default_prompt)
      in if prompt = ''-'' then None
         else Some (''[INST] <image>'' @ [CHR 0x0A] @ prompt @ [CHR 0x0A] @ ''[/INST]''))"

text \<open>
  Line 90, \<^verbatim>\<open>prompt = prompt.replace("[CONTEXT]", context)\<close>, on what \<^verbatim>\<open>get_prompt\<close>
  returned: \<^verbatim>\<open>None\<close> has no attribute \<^verbatim>\<open>replace\<close>.
\<close>

definition substitute_context :: "string option \<Rightarrow> string \<Rightarrow> error + string" where
  "substitute_context prompt context =
     (case prompt of
        None \<Rightarrow> Inl AttributeError
      | Some p \<Rightarrow> Inr (py_replace p ''[CONTEXT]'' context))"

subsection \<open>The image of a span (lines 96 to 101)\<close>

definition select_image :: "timeframe \<Rightarrow> image" where
  "select_image tf =
     (let representatives = tf_representatives tf
      in if representatives \<noteq> None \<and> representatives \<noteq> Some []
         then extract_mid_frame tf
         else extract_mid_frame tf)"

subsection \<open>\<^verbatim>\<open>process_batch\<close>\<close>

text \<open>The body of the loop of lines 78 to 82, for one caption and its source.\<close>

definition emit :: "out_annotation list \<Rightarrow> string \<times> ident \<Rightarrow> out_annotation list" where
  "emit v p =
     (let text_document = fresh_id TextDocument v;
          v1 = v @ [NewTextDocument text_document (strip (fst p))];
          alignment = fresh_id Alignment v1
      in v1 @ [NewAlignment alignment (snd p) text_document])"

definition process_batch ::
  "model \<Rightarrow> string list \<Rightarrow> nat \<Rightarrow> ident list \<Rightarrow> locals \<Rightarrow> error option \<times> locals" where
  "process_batch generate ps ims anns s =
     (let s1 = s\<lparr>calls := calls s @ [(ps, heap s ims)]\<rparr>
      in case generate ps (heap s ims) of
           None \<Rightarrow> (Some ModelError, s1)
         | Some generated_texts \<Rightarrow>
             (None, s1\<lparr>new_view := foldl emit (new_view s1) (zip generated_texts anns)\<rparr>))"

text \<open>
  Lines 106 to 108 and 127 to 129: a full batch is processed, then the three names are
  bound to new empty lists.
\<close>

definition rebind :: "locals \<Rightarrow> locals" where
  "rebind s = s\<lparr>prompts := [], images := next_ref s, annotations := [],
     heap := (heap s)(next_ref s := []), next_ref := Suc (next_ref s)\<rparr>"

definition flush_when_full :: "model \<Rightarrow> int \<Rightarrow> locals \<Rightarrow> error option \<times> locals" where
  "flush_when_full generate batch_size s =
     (if int (length (prompts s)) = batch_size then
        (case process_batch generate (prompts s) (images s) (annotations s) s of
           (Some e, s') \<Rightarrow> (Some e, s')
         | (None, s') \<Rightarrow> (None, rebind s'))
      else (None, s))"

text \<open>Lines 110/111 and 131/132: what is left after the loop is processed.\<close>

definition flush_rest :: "model \<Rightarrow> locals \<Rightarrow> error option \<times> locals" where
  "flush_rest generate s =
     (if prompts s \<noteq> [] then
        process_batch generate (prompts s) (images s) (annotations s) s
      else (None, s))"

subsection \<open>The loop over the time frames (lines 85 to 108)\<close>

definition append_item :: "string \<Rightarrow> image \<Rightarrow> ident \<Rightarrow> locals \<Rightarrow> locals" where
  "append_item prompt img source s =
     s\<lparr>prompts := prompts s @ [prompt],
       heap := (heap s)(images s := heap s (images s) @ [img]),
       annotations := annotations s @ [source]\<rparr>"

definition timeframe_step ::
  "model \<Rightarrow> mmif \<Rightarrow> (string \<rightharpoonup> string) \<Rightarrow> string \<Rightarrow> int \<Rightarrow> timeframe \<Rightarrow> locals
     \<Rightarrow> error option \<times> locals" where
  "timeframe_step generate m label_map default_prompt batch_size tf s =
     (let context = get_context m tf max_characters_default
      in case tf_label tf of
           None \<Rightarrow> (Some KeyError, s)
         | Some label \<Rightarrow>
            (case substitute_context (get_prompt label label_map default_prompt) context of
               Inl e \<Rightarrow> (Some e, s)
             | Inr prompt \<Rightarrow>
                 if prompt = [] then (None, s)
                 else flush_when_full generate batch_size
                        (append_item prompt (select_image tf) (Given (tf_long_id tf)) s)))"

fun timeframe_loop ::
  "model \<Rightarrow> mmif \<Rightarrow> (string \<rightharpoonup> string) \<Rightarrow> string \<Rightarrow> int \<Rightarrow> timeframe list \<Rightarrow> locals
     \<Rightarrow> error option \<times> locals" where
  "timeframe_loop generate m label_map default_prompt batch_size [] s = (None, s)"
| "timeframe_loop generate m label_map default_prompt batch_size (tf # tfs) s =
     (case timeframe_step generate m label_map default_prompt batch_size tf s of
        (Some e, s') \<Rightarrow> (Some e, s')
      | (None, s') \<Rightarrow> timeframe_loop generate m label_map default_prompt batch_size tfs s')"

subsection \<open>The loop over the sampled frames (lines 117 to 129)\<close>

definition interval_step ::
  "model \<Rightarrow> string \<Rightarrow> int \<Rightarrow> int \<Rightarrow> image \<Rightarrow> locals \<Rightarrow> error option \<times> locals" where
  "interval_step generate default_prompt batch_size frame_number img s =
     (let prompt = default_prompt;
          s1 = s\<lparr>prompts := prompts s @ [prompt],
                 heap := (heap s)(images s := heap s (images s) @ [img])\<rparr>;
          timepoint = fresh_id TimePoint (new_view s1);
          s2 = s1\<lparr>new_view := new_view s1 @ [NewTimePoint timepoint frame_number],
                  annotations := annotations s1 @ [timepoint]\<rparr>
      in flush_when_full generate batch_size s2)"

text \<open>
  \<^verbatim>\<open>for frame_number, image in zip(frame_numbers, images)\<close>: the iterator of \<^verbatim>\<open>zip\<close>
  keeps the list object that \<^verbatim>\<open>images\<close> named when the loop started (reference \<open>z\<close>) and
  reads its element \<open>k\<close> in round \<open>k\<close>; it stops when either list is exhausted.
\<close>

fun interval_loop ::
  "model \<Rightarrow> string \<Rightarrow> int \<Rightarrow> nat \<Rightarrow> int list \<Rightarrow> nat \<Rightarrow> locals \<Rightarrow> error option \<times> locals" where
  "interval_loop generate default_prompt batch_size z [] k s = (None, s)"
| "interval_loop generate default_prompt batch_size z (frame_number # rest) k s =
     (if k < length (heap s z) then
        (case interval_step generate default_prompt batch_size frame_number (heap s z ! k) s of
           (Some e, s') \<Rightarrow> (Some e, s')
         | (None, s') \<Rightarrow> interval_loop generate default_prompt batch_size z rest (Suc k) s')
      else (None, s))"

subsection \<open>\<^verbatim>\<open>_annotate\<close>\<close>

definition transnet_app :: string where
  "transnet_app = ''http://apps.clams.ai/transnet-wrapper/unresolvable''"

text \<open>The state before line 51: nothing created, no model call made.\<close>

definition no_locals :: locals where
  "no_locals = \<lparr>prompts = [], images = 0, annotations = [], heap = (\<lambda>_. []),
     next_ref = 0, new_view = [], calls = []\<rparr>"

text \<open>Lines 55 to 63: the new view is empty, \<^verbatim>\<open>images\<close> names a new empty list.\<close>

definition init_locals :: locals where
  "init_locals = no_locals\<lparr>images := 0, next_ref := 1\<rparr>"

text \<open>Line 115: \<^verbatim>\<open>images\<close> is bound to the list that the extraction returns.\<close>

definition bind_images :: "image list \<Rightarrow> locals \<Rightarrow> locals" where
  "bind_images xs s = s\<lparr>images := next_ref s, heap := (heap s)(next_ref s := xs),
     next_ref := Suc (next_ref s)\<rparr>"

text \<open>Lines 48 and 49: the fallbacks of \<^verbatim>\<open>parameters.get\<close>.\<close>

definition frame_interval_of :: "parameters \<Rightarrow> int" where
  "frame_interval_of ps = (case frameInterval ps of Some v \<Rightarrow> v | None \<Rightarrow> 30)"

definition batch_size_of :: "parameters \<Rightarrow> int" where
  "batch_size_of ps = (case batchSize ps of Some v \<Rightarrow> v | None \<Rightarrow> 8)"

text \<open>The end of either branch: the rest is processed unless the loop has raised.\<close>

definition then_flush_rest :: "model \<Rightarrow> error option \<times> locals \<Rightarrow> error option \<times> locals" where
  "then_flush_rest generate r =
     (case r of (Some e, s) \<Rightarrow> (Some e, s) | (None, s) \<Rightarrow> flush_rest generate s)"

text \<open>
  \<^verbatim>\<open>_annotate\<close>. The two lookups of lines 51 and 54 take element 0 of a list, which raises
  \<^verbatim>\<open>IndexError\<close> on an empty one. \<^verbatim>\<open>timeframes\<close> is the list of the view's time frames and
  the test \<^verbatim>\<open>if timeframes:\<close> of line 84 is the test that it is not empty. The result is
  the exception raised, if any, and the locals, of which \<open>new_view\<close> is the content of the
  view added to the returned document.
\<close>

definition annotate :: "model \<Rightarrow> mmif \<Rightarrow> parameters \<Rightarrow> error option \<times> locals" where
  "annotate generate m ps =
     (let label_map = promptMap ps;
          default_prompt = defaultPrompt ps;
          frame_interval = frame_interval_of ps;
          batch_size = batch_size_of ps
      in case video_documents m of
           [] \<Rightarrow> (Some IndexError, no_locals)
         | video_doc # _ \<Rightarrow>
            (let input_views = get_views_for_document m (doc_id video_doc)
             in case filter (\<lambda>v. metadata_app v = transnet_app) input_views of
                  [] \<Rightarrow> (Some IndexError, no_locals)
                | input_view # _ \<Rightarrow>
                   (let timeframes = view_timeframes input_view
                    in if timeframes \<noteq> [] then
                         then_flush_rest generate
                           (timeframe_loop generate m label_map default_prompt batch_size
                              timeframes init_locals)
                       else
                         (case py_range 0 (get_frame_count video_doc) frame_interval of
                            Inl e \<Rightarrow> (Some e, init_locals)
                          | Inr frame_numbers \<Rightarrow>
                             (let s = bind_images
                                        (extract_frames_as_images video_doc frame_numbers)
                                        init_locals
                              in then_flush_rest generate
                                   (interval_loop generate default_prompt batch_size
                                      (images s) frame_numbers 0 s))))))"

subsection \<open>The command line parser (lines 138 to 142)\<close>

definition parser_defaults :: cli_args where
  "parser_defaults = \<lparr>cli_port = ''5000'', cli_production = False,
     cli_frameInterval = 10, cli_batchSize = 4\<rparr>"

section \<open>The spans of a run\<close>

text \<open>
  The notions the properties below are stated with. A time frame is skipped when its
  label resolves to the sentinel, that is when \<^verbatim>\<open>get_prompt\<close> returns \<^verbatim>\<open>None\<close> for it.
\<close>

definition non_skipped :: "(string \<rightharpoonup> string) \<Rightarrow> string \<Rightarrow> timeframe \<Rightarrow> bool" where
  "non_skipped label_map default_prompt tf =
     (case tf_label tf of
        None \<Rightarrow> True
      | Some label \<Rightarrow> get_prompt label label_map default_prompt \<noteq> None)"

text \<open>The time frames that line 60 reads, and the frame numbers that line 114 computes.\<close>

definition input_timeframes :: "mmif \<Rightarrow> timeframe list" where
  "input_timeframes m =
     (case video_documents m of
        [] \<Rightarrow> []
      | video_doc # _ \<Rightarrow>
         (case filter (\<lambda>v. metadata_app v = transnet_app)
                 (get_views_for_document m (doc_id video_doc)) of
            [] \<Rightarrow> []
          | input_view # _ \<Rightarrow> view_timeframes input_view))"














section \<open>Inputs for the worked runs\<close>

text \<open>A model stub that answers every prompt of a batch with the same caption.\<close>

definition caption_stub :: model where
  "caption_stub ps ims = Some (map (\<lambda>p. ''a caption'') ps)"

definition video_100 :: video_document where
  "video_100 = \<lparr>doc_id = ''m1'', frame_count = 100\<rparr>"

definition transnet_view :: "timeframe list \<Rightarrow> view" where
  "transnet_view tfs =
     \<lparr>metadata_app = transnet_app, anchored_on = [''m1''], view_timeframes = tfs\<rparr>"

definition mmif_with :: "timeframe list \<Rightarrow> mmif" where
  "mmif_with tfs = \<lparr>video_documents = [video_100], views = [transnet_view tfs],
     aligned_text = (\<lambda>start end. ''spoken words'')\<rparr>"

definition labelled :: "string \<Rightarrow> string \<Rightarrow> int \<Rightarrow> int \<Rightarrow> timeframe" where
  "labelled i l a b = \<lparr>tf_long_id = i, tf_start = a, tf_end = b, tf_label = Some l,
     tf_representatives = None\<rparr>"

text \<open>The parameters of the spec's scenario with skipped labels: label \<open>B\<close> maps to \<open>-\<close>.\<close>

definition skip_B :: parameters where
  "skip_B = \<lparr>promptMap = [''A'' \<mapsto> ''Describe A'', ''B'' \<mapsto> ''-''],
     defaultPrompt = ''Describe scene'', frameInterval = None, batchSize = None\<rparr>"


text \<open>The spec's scenario of five time frames labelled \<open>A\<close>, \<open>B\<close>, \<open>A\<close>, \<open>C\<close>, \<open>B\<close>.\<close>

definition five_timeframes :: "timeframe list" where
  "five_timeframes = [labelled ''v1:tf_1'' ''A'' 0 30, labelled ''v1:tf_2'' ''B'' 30 60,
     labelled ''v1:tf_3'' ''A'' 60 90, labelled ''v1:tf_4'' ''C'' 90 95,
     labelled ''v1:tf_5'' ''B'' 95 100]"



section \<open>Properties\<close>

subsection \<open>The skip sentinel\<close>

text \<open>
  Claim C1: a span whose resolved template is the skip sentinel \<open>-\<close> yields no output
  annotation, enters no batch and is left out silently. The code does not do that:
  \<^verbatim>\<open>get_prompt\<close> returns \<^verbatim>\<open>None\<close> for such a span, and line 90 calls \<^verbatim>\<open>replace\<close> on it
  before line 93 tests it. On a view with the single time frame labelled \<open>B\<close> the run
  raises \<^verbatim>\<open>AttributeError\<close>; nothing is written and the model is never called.
\<close>

theorem skip_sentinel_raises:
  "fst (annotate caption_stub (mmif_with [labelled ''v1:tf_1'' ''B'' 0 30]) skip_B)
     = Some AttributeError
   \<and> new_view (snd (annotate caption_stub (mmif_with [labelled ''v1:tf_1'' ''B'' 0 30]) skip_B))
     = []
   \<and> calls (snd (annotate caption_stub (mmif_with [labelled ''v1:tf_1'' ''B'' 0 30]) skip_B))
     = []"
  by code_simp

subsection \<open>The context string\<close>

text \<open>
  Claim C6: the context that \<^verbatim>\<open>_annotate\<close> substitutes into a prompt, that is
  \<^verbatim>\<open>get_context\<close> with its default maximum, has at most 200 characters, whatever the
  span and the aligned text are.
\<close>

theorem context_at_most_200:
  "int (length (get_context m tf max_characters_default)) \<le> max_characters_default
   \<and> max_characters_default = 200"
  by (simp add: get_context_def slice_to_def max_characters_default_def)

subsection \<open>Fallbacks and parser defaults\<close>

text \<open>
  Claim C7: a request without \<^verbatim>\<open>frameInterval\<close> and \<^verbatim>\<open>batchSize\<close> runs as one with
  \<^verbatim>\<open>frameInterval\<close> 30 and \<^verbatim>\<open>batchSize\<close> 8, the command line parser declares the defaults
  10 and 4, and the two pairs of values differ.
\<close>

theorem fallbacks_differ_from_parser_defaults:
  "annotate generate m (ps\<lparr>frameInterval := None, batchSize := None\<rparr>)
     = annotate generate m (ps\<lparr>frameInterval := Some 30, batchSize := Some 8\<rparr>)
   \<and> frame_interval_of (ps\<lparr>frameInterval := None\<rparr>) = 30
   \<and> batch_size_of (ps\<lparr>batchSize := None\<rparr>) = 8
   \<and> cli_frameInterval parser_defaults = 10
   \<and> cli_batchSize parser_defaults = 4
   \<and> frame_interval_of (ps\<lparr>frameInterval := None\<rparr>) \<noteq> cli_frameInterval parser_defaults
   \<and> batch_size_of (ps\<lparr>batchSize := None\<rparr>) \<noteq> cli_batchSize parser_defaults"
  by (simp add: annotate_def frame_interval_of_def batch_size_of_def parser_defaults_def)

subsection \<open>The image of a span\<close>

text \<open>
  Claim C9: for every time frame the image is the frame at the midpoint of its extent,
  and the property \<^verbatim>\<open>representatives\<close> has no influence on it: both branches of lines 97
  to 101 call \<^verbatim>\<open>extract_mid_frame\<close>. The result is a function of the span.
\<close>

theorem image_is_mid_frame:
  "select_image tf = Frame ((tf_start tf + tf_end tf) div 2)
   \<and> select_image (tf\<lparr>tf_representatives := r\<rparr>) = select_image tf"
  by (simp add: select_image_def extract_mid_frame_def)

subsection \<open>The required view\<close>

text \<open>
  Claim C10: when the input has no video document, or no view of the app
  \<^verbatim>\<open>http://apps.clams.ai/transnet-wrapper/unresolvable\<close> anchored on the first video
  document, the run raises \<^verbatim>\<open>IndexError\<close> at line 51 or 54, whatever the time frames and
  the parameters are: no view is created, no prompt is rendered and the model is not called.
\<close>

theorem missing_view_raises:
  assumes "video_documents m = [] \<or>
     (\<forall>v \<in> set (views m). metadata_app v = transnet_app \<longrightarrow>
        doc_id (hd (video_documents m)) \<notin> set (anchored_on v))"
  shows "annotate generate m ps = (Some IndexError, no_locals) \<and> calls no_locals = []
    \<and> new_view no_locals = [] \<and> prompts no_locals = []"
proof -
  have "annotate generate m ps = (Some IndexError, no_locals)"
  proof (cases "video_documents m")
    case Nil
    then show ?thesis by (simp add: annotate_def)
  next
    case (Cons video_doc rest)
    with assms have "filter (\<lambda>v. metadata_app v = transnet_app)
        (get_views_for_document m (doc_id video_doc)) = []"
      by (auto simp: get_views_for_document_def filter_empty_conv)
    with Cons show ?thesis by (simp add: annotate_def)
  qed
  then show ?thesis by (simp add: no_locals_def)
qed

text \<open>
  The hypothesis holds for a document whose only view comes from another app and has no
  time frames, the input of the interval branch.
\<close>

theorem missing_view_raises_witness:
  "filter (\<lambda>v. metadata_app v = transnet_app) (views \<lparr>video_documents = [video_100],
        views = [(transnet_view [])\<lparr>metadata_app := ''http://apps.clams.ai/swt-detection/v7.4''\<rparr>],
        aligned_text = (\<lambda>start end. [])\<rparr>) = []
   \<and> fst (annotate caption_stub \<lparr>video_documents = [video_100],
        views = [(transnet_view [])\<lparr>metadata_app := ''http://apps.clams.ai/swt-detection/v7.4''\<rparr>],
        aligned_text = (\<lambda>start end. [])\<rparr> skip_B) = Some IndexError"
  using missing_view_raises [of "\<lparr>video_documents = [video_100],
        views = [(transnet_view [])\<lparr>metadata_app := ''http://apps.clams.ai/swt-detection/v7.4''\<rparr>],
        aligned_text = (\<lambda>start end. [])\<rparr>" caption_stub skip_B]
  by (simp add: transnet_view_def transnet_app_def)

subsection \<open>Substitution of the context\<close>

text \<open>Facts about \<^verbatim>\<open>str.replace\<close> on a string without an occurrence of \<open>old\<close>.\<close>

lemma py_replace_Nil: "old \<noteq> [] \<Longrightarrow> py_replace [] old new = []"
  by (simp add: py_replace.simps)

lemma py_replace_Cons_no_prefix:
  "old \<noteq> [] \<Longrightarrow> \<not> prefix old (c # s) \<Longrightarrow> py_replace (c # s) old new = c # py_replace s old new"
  by (subst py_replace.simps) simp

lemma py_replace_absent:
  "old \<noteq> [] \<Longrightarrow> \<not> sublist old s \<Longrightarrow> py_replace s old new = s"
proof (induction s)
  case Nil
  then show ?case by (simp add: py_replace_Nil)
next
  case (Cons c s)
  from Cons.prems(2) have "\<not> prefix old (c # s)" and "\<not> sublist old s"
    by (simp_all add: sublist_Cons_right)
  with Cons show ?case by (simp add: py_replace_Cons_no_prefix)
qed

lemma prefix_before_foreign_char:
  assumes "prefix p (xs @ c # ys)" and "c \<notin> set p"
  shows "prefix p xs"
proof -
  from assms(1) have "prefix p xs \<or> (\<exists>us. p = xs @ us \<and> prefix us (c # ys))"
    by (simp add: prefix_append)
  then show ?thesis
  proof (elim disjE exE conjE)
    fix us
    assume p: "p = xs @ us" and us: "prefix us (c # ys)"
    show "prefix p xs"
    proof (cases us)
      case Nil
      with p show ?thesis by simp
    next
      case (Cons d us')
      with us have "d = c" by simp
      with Cons p assms(2) show ?thesis by simp
    qed
  qed
qed

lemma py_replace_absent_append:
  assumes "old \<noteq> []" and "c \<notin> set old" and "\<not> sublist old t"
  shows "py_replace (t @ c # ys) old new = t @ py_replace (c # ys) old new"
  using assms(3)
proof (induction t)
  case Nil
  then show ?case by simp
next
  case (Cons d t)
  from Cons.prems have np: "\<not> prefix old (d # t)" and ns: "\<not> sublist old t"
    by (simp_all add: sublist_Cons_right)
  have "\<not> prefix old ((d # t) @ c # ys)"
    using np prefix_before_foreign_char [OF _ assms(2)] by blast
  then have "py_replace ((d # t) @ c # ys) old new = d # py_replace (t @ c # ys) old new"
    using assms(1) by (simp add: py_replace_Cons_no_prefix)
  with Cons.IH [OF ns] show ?case by simp
qed

lemma py_replace_wrapped:
  assumes "\<not> sublist ''[CONTEXT]'' t"
  shows "py_replace (''[INST] <image>'' @ [CHR 0x0A] @ t @ [CHR 0x0A] @ ''[/INST]'') ''[CONTEXT]'' ctx
     = ''[INST] <image>'' @ [CHR 0x0A] @ t @ [CHR 0x0A] @ ''[/INST]''"
proof -
  have tail: "py_replace (CHR 0x0A # ''[/INST]'') ''[CONTEXT]'' ctx = CHR 0x0A # ''[/INST]''"
    by (simp add: py_replace_Cons_no_prefix py_replace_Nil)
  have "py_replace (t @ CHR 0x0A # ''[/INST]'') ''[CONTEXT]'' ctx = t @ CHR 0x0A # ''[/INST]''"
    using py_replace_absent_append [of "''[CONTEXT]''" "CHR 0x0A" t "''[/INST]''" "ctx"] assms tail
    by simp
  then show ?thesis
    by (simp add: py_replace_Cons_no_prefix)
qed

text \<open>
  Claim C8: a prompt that does not contain the placeholder \<open>[CONTEXT]\<close> passes line 90
  unchanged and without an exception. This holds for any prompt string at line 90, and
  for the prompt that \<^verbatim>\<open>get_prompt\<close> builds from any resolved template without the
  placeholder: the wrapping in \<open>[INST] <image> ... [/INST]\<close> adds no occurrence. (The skip
  sentinel is not a template at line 90: \<^verbatim>\<open>get_prompt\<close> turns it into \<^verbatim>\<open>None\<close>.)
\<close>

theorem substitution_without_placeholder:
  "(\<not> sublist ''[CONTEXT]'' p \<longrightarrow> substitute_context (Some p) ctx = Inr p)
   \<and> ((case prompt_map label of Some t \<Rightarrow> t | None \<Rightarrow> default_prompt) = template
        \<and> template \<noteq> ''-'' \<and> \<not> sublist ''[CONTEXT]'' template \<longrightarrow>
      get_prompt label prompt_map default_prompt
        = Some (''[INST] <image>'' @ [CHR 0x0A] @ template @ [CHR 0x0A] @ ''[/INST]'')
      \<and> substitute_context (get_prompt label prompt_map default_prompt) ctx
        = Inr (''[INST] <image>'' @ [CHR 0x0A] @ template @ [CHR 0x0A] @ ''[/INST]''))"
proof (intro conjI impI)
  assume "\<not> sublist ''[CONTEXT]'' p"
  then show "substitute_context (Some p) ctx = Inr p"
    by (simp add: substitute_context_def py_replace_absent)
next
  assume a: "(case prompt_map label of Some t \<Rightarrow> t | None \<Rightarrow> default_prompt) = template
        \<and> template \<noteq> ''-'' \<and> \<not> sublist ''[CONTEXT]'' template"
  then show g: "get_prompt label prompt_map default_prompt
        = Some (''[INST] <image>'' @ [CHR 0x0A] @ template @ [CHR 0x0A] @ ''[/INST]'')"
    by (simp add: get_prompt_def)
  from a have "\<not> sublist ''[CONTEXT]'' template" by simp
  from py_replace_wrapped [OF this] g
  show "substitute_context (get_prompt label prompt_map default_prompt) ctx
        = Inr (''[INST] <image>'' @ [CHR 0x0A] @ template @ [CHR 0x0A] @ ''[/INST]'')"
    by (simp add: substitute_context_def)
qed

theorem substitution_without_placeholder_witness:
  "\<not> sublist ''[CONTEXT]'' ''Describe scene''
   \<and> substitute_context (Some ''Describe scene'') ''spoken words'' = Inr ''Describe scene''
   \<and> substitute_context (get_prompt ''C'' (promptMap skip_B) (defaultPrompt skip_B)) ''spoken words''
        = Inr (''[INST] <image>'' @ [CHR 0x0A] @ ''Describe scene'' @ [CHR 0x0A] @ ''[/INST]'')"
proof -
  have h: "\<not> sublist ''[CONTEXT]'' ''Describe scene''"
    by (simp add: sublist_code)
  have r: "(case promptMap skip_B ''C'' of Some t \<Rightarrow> t | None \<Rightarrow> defaultPrompt skip_B)
      = ''Describe scene'' \<and> ''Describe scene'' \<noteq> ''-''"
    by (simp add: skip_B_def)
  from h r substitution_without_placeholder [where p = "''Describe scene''" and ctx = "''spoken words''"
      and prompt_map = "promptMap skip_B" and label = "''C''"
      and default_prompt = "defaultPrompt skip_B" and template = "''Describe scene''"]
  show ?thesis by blast
qed


subsection \<open>Interval sampling\<close>


subsection \<open>Counting the output\<close>

text \<open>
  Claim C3: a span sequence with \<open>N\<close> spans that are not skipped yields \<open>N\<close> text documents
  and \<open>N\<close> alignments. On the spec's own scenario, labels \<open>A\<close>, \<open>B\<close>, \<open>A\<close>, \<open>C\<close>, \<open>B\<close> with \<open>B\<close>
  mapped to the sentinel, three spans are not skipped; the run raises \<^verbatim>\<open>AttributeError\<close> at
  the second span and the view holds no text document and no alignment.
\<close>

theorem five_timeframes_yield_nothing:
  "length (filter (non_skipped (promptMap skip_B) (defaultPrompt skip_B)) five_timeframes) = 3
   \<and> fst (annotate caption_stub (mmif_with five_timeframes) skip_B) = Some AttributeError
   \<and> new_view (snd (annotate caption_stub (mmif_with five_timeframes) skip_B)) = []
   \<and> calls (snd (annotate caption_stub (mmif_with five_timeframes) skip_B)) = []"
  by code_simp

subsection \<open>Batching\<close>

















lemma timeframe_step_non_skipped:
  assumes "timeframe_step generate m label_map default_prompt batch_size tf s = (None, s')"
  shows "non_skipped label_map default_prompt tf"
  using assms
  by (auto simp: timeframe_step_def non_skipped_def substitute_context_def Let_def
      split: option.splits)

lemma timeframe_loop_non_skipped:
  assumes "timeframe_loop generate m label_map default_prompt batch_size tfs s = (None, s')"
  shows "filter (non_skipped label_map default_prompt) tfs = tfs"
  using assms
proof (induction tfs arbitrary: s)
  case Nil
  then show ?case by simp
next
  case (Cons tf tfs)
  obtain e s2 where step:
    "timeframe_step generate m label_map default_prompt batch_size tf s = (e, s2)"
    by (cases "timeframe_step generate m label_map default_prompt batch_size tf s")
  with Cons.prems have e: "e = None"
    and rest: "timeframe_loop generate m label_map default_prompt batch_size tfs s2 = (None, s')"
    by (auto split: option.splits)
  from timeframe_step_non_skipped [OF step [unfolded e]] Cons.IH [OF rest]
  show ?case by simp
qed

text \<open>
  A run over time frames that returns has met no skipped span: with a skipped span among
  the time frames, the run raises.
\<close>

lemma skipped_span_aborts:
  assumes "input_timeframes m \<noteq> []"
    and "filter (non_skipped (promptMap ps) (defaultPrompt ps)) (input_timeframes m)
      \<noteq> input_timeframes m"
  shows "fst (annotate generate m ps) \<noteq> None"
proof
  assume none: "fst (annotate generate m ps) = None"
  from assms(1) obtain video_doc vds where vd: "video_documents m = video_doc # vds"
    by (cases "video_documents m") (auto simp: input_timeframes_def)
  with assms(1) obtain input_view vs where
    iv: "filter (\<lambda>v. metadata_app v = transnet_app) (get_views_for_document m (doc_id video_doc))
          = input_view # vs"
    by (cases "filter (\<lambda>v. metadata_app v = transnet_app)
          (get_views_for_document m (doc_id video_doc))") (auto simp: input_timeframes_def)
  with vd have tfs: "input_timeframes m = view_timeframes input_view"
    by (simp add: input_timeframes_def)
  let ?loop = "timeframe_loop generate m (promptMap ps) (defaultPrompt ps) (batch_size_of ps)
      (view_timeframes input_view) init_locals"
  obtain e1 s1 where loop: "?loop = (e1, s1)" by (cases ?loop)
  with vd iv tfs assms(1) have "annotate generate m ps = then_flush_rest generate (e1, s1)"
    by (simp add: annotate_def)
  with none have "e1 = None"
    by (auto simp: then_flush_rest_def split: option.splits)
  from timeframe_loop_non_skipped [OF loop [unfolded this]] tfs assms(2) show False
    by simp
qed











subsection \<open>Order of the alignments\<close>






















end
